theory Spec2Isabelle
  imports Complex_Main "HOL-Library.Log_Nat"
begin

section \<open>JavaScript values used by the front end\<close>

text \<open>
  The repository's front end is JavaScript. Every number there is an IEEE-754 double, so
  \<^verbatim>\<open>a / b\<close> and \<^verbatim>\<open>a * b\<close> are the exact quotient and product rounded to the nearest
  double (ties to the even significand). A double is modelled by the rational it denotes;
  \<open>fl\<close> rounds a rational to 53 significant bits. Overflow and subnormal numbers are not
  modelled: the numbers of this program are counts of records and of minutes.
\<close>

datatype 'a completion = Return 'a | Throw string

definition round_half_even :: "rat \<Rightarrow> int" where
  "round_half_even y =
     (let n = \<lfloor>y\<rfloor>; r = y - of_int n
      in if r < 1 / 2 then n else if 1 / 2 < r then n + 1 else if even n then n else n + 1)"

text \<open>\<open>ilog2 x\<close> is the binary exponent of a positive \<open>x\<close>: \<open>2 powi e \<le> x < 2 powi (e + 1)\<close>.\<close>

definition ilog2 :: "rat \<Rightarrow> int" where
  "ilog2 x =
     (let e0 = bitlen (fst (quotient_of x)) - bitlen (snd (quotient_of x))
      in if 2 powi e0 \<le> x then e0 else e0 - 1)"

definition fl :: "rat \<Rightarrow> rat" where
  "fl x =
     (if x = 0 then 0
      else let u = 2 powi (ilog2 \<bar>x\<bar> - 52)
           in sgn x * of_int (round_half_even (\<bar>x\<bar> / u)) * u)"

definition js_div :: "rat \<Rightarrow> rat \<Rightarrow> rat" where
  "js_div a b = fl (a / b)"

definition js_mul :: "rat \<Rightarrow> rat \<Rightarrow> rat" where
  "js_mul a b = fl (a * b)"

text \<open>\<^verbatim>\<open>Math.floor\<close> and \<^verbatim>\<open>Math.round\<close> (the latter rounds a tie upwards).\<close>

definition Math_floor :: "rat \<Rightarrow> int" where
  "Math_floor x = \<lfloor>x\<rfloor>"

definition Math_round :: "rat \<Rightarrow> int" where
  "Math_round x = \<lfloor>x + 1 / 2\<rfloor>"

text \<open>\<^verbatim>\<open>a % b\<close> on whole numbers: the remainder has the sign of the dividend.\<close>

definition js_rem :: "int \<Rightarrow> int \<Rightarrow> int" where
  "js_rem a b = sgn a * (\<bar>a\<bar> mod \<bar>b\<bar>)"

text \<open>
  A whole number inside a template literal is printed in decimal (below \<open>10^21\<close>; larger
  numbers switch to exponent notation, which is not modelled).
\<close>

fun digits :: "nat \<Rightarrow> string" where
  "digits n = (if n < 10 then [''0123456789'' ! n]
               else digits (n div 10) @ [''0123456789'' ! (n mod 10)])"

definition js_string :: "int \<Rightarrow> string" where
  "js_string i = (if i < 0 then CHR ''-'' # digits (nat (- i)) else digits (nat i))"


section \<open>Duration label (ProfessionalAttendance, \<^verbatim>\<open>formatDuration\<close>)\<close>

text \<open>
  \<^verbatim>\<open>
  const formatDuration = (minutes) => {
    if (!minutes || minutes <= 0) return '0h 0m';
    const hours = Math.floor(minutes / 60);
    const mins = minutes % 60;
    return `${hours}h ${mins}m`;
  };
  \<close>
  The argument is the record's \<^verbatim>\<open>working_minutes\<close>: a whole number, or \<open>None\<close> when the
  field is \<^verbatim>\<open>null\<close> or \<^verbatim>\<open>undefined\<close>. \<^verbatim>\<open>!minutes\<close> holds for a missing value and for 0.
  The function has no \<^verbatim>\<open>throw\<close>: every path of the model is a \<open>Return\<close>.
\<close>

definition formatDuration :: "int option \<Rightarrow> string completion" where
  "formatDuration minutes =
     (case minutes of
        None \<Rightarrow> Return ''0h 0m''
      | Some m \<Rightarrow>
          if m = 0 \<or> m \<le> 0 then Return ''0h 0m''
          else let hours = Math_floor (js_div (of_int m) 60);
                   mins = js_rem m 60
               in Return (js_string hours @ ''h '' @ js_string mins @ ''m''))"


section \<open>Attendance rate (api utilities and AttendanceManagement)\<close>

text \<open>
  \<^verbatim>\<open>
  calculateAttendanceRate: (present, total) => {
    if (total === 0) return 0;
    return Math.round((present / total) * 100);
  },
  \<close>
  The arguments are counts of records.
\<close>

definition calculateAttendanceRate :: "nat \<Rightarrow> nat \<Rightarrow> int" where
  "calculateAttendanceRate present total' =
     (if total' = 0 then 0
      else Math_round (js_mul (js_div (of_nat present) (of_nat total')) 100))"

text \<open>
  The attendance page counts today's records by status and shows the rate only when there
  is at least one counted record (\<^verbatim>\<open>{stats.total > 0 && ...}\<close>):
  \<^verbatim>\<open>
  const getTodayAttendance = () => {
    const today = new Date().toISOString().split('T')[0];
    return attendance.filter(record => record.date === today);
  };
  const getAttendanceStats = () => {
    const todayRecords = getTodayAttendance();
    const present = todayRecords.filter(r => r.status === 'Present').length;
    const absent = todayRecords.filter(r => r.status === 'Absent').length;
    const late = todayRecords.filter(r => r.status === 'Late').length;
    return { present, absent, late, total: present + absent + late };
  };
  ...
  {Math.round(((stats.present + stats.late) / stats.total) * 100)}%
  \<close>
\<close>

text \<open>
  An attendance record as the service returns it. The page reads \<open>date\<close> and \<open>status\<close>;
  instants are whole minutes on the single clock of the system.
\<close>

record attendance_record =
  employee_id :: string
  date :: string
  status :: string
  check_in_time :: "int option"
  check_out_time :: "int option"
  is_auto_checkout :: bool
  notes' :: string

record attendance_stats =
  present :: nat
  absent :: nat
  late :: nat
  total :: nat

definition getTodayAttendance :: "string \<Rightarrow> attendance_record list \<Rightarrow> attendance_record list" where
  "getTodayAttendance today attendance = filter (\<lambda>record. date record = today) attendance"

definition getAttendanceStats :: "string \<Rightarrow> attendance_record list \<Rightarrow> attendance_stats" where
  "getAttendanceStats today attendance =
     (let todayRecords = getTodayAttendance today attendance;
          present = length (filter (\<lambda>r. status r = ''Present'') todayRecords);
          absent = length (filter (\<lambda>r. status r = ''Absent'') todayRecords);
          late = length (filter (\<lambda>r. status r = ''Late'') todayRecords)
      in \<lparr>present = present, absent = absent, late = late, total = present + absent + late\<rparr>)"

text \<open>The rate card of the page: \<open>None\<close> when the statistics block is not rendered.\<close>

definition attendanceRateCard :: "attendance_stats \<Rightarrow> int option" where
  "attendanceRateCard stats =
     (if total stats > 0
      then Some (Math_round (js_mul (js_div (of_nat (present stats + late stats)) (of_nat (total stats))) 100))
      else None)"


section \<open>Automatic check-out\<close>

text \<open>
  Modelled from the spec: \<open>applyAutoCheckoutIfDue\<close> belongs to the attendance service, whose
  code is not among the sources; only the pages that display \<^verbatim>\<open>is_auto_checkout\<close> and
  \<^verbatim>\<open>time_until_auto_checkout\<close> are. The definition follows the specification: "given a record
  with an open check-in, returns an updated record with check-out forced at
  \<open>check_in_time + ceiling\<close> when \<open>now - check_in_time \<ge> ceiling\<close>, else returns the record
  unchanged"; "once \<open>check_out_time\<close> is set (by any path) further auto-checkout attempts
  are no-ops"; "a record with unparsable or missing timestamps is treated as not due and
  left untouched". The ceiling is a configuration value.
\<close>

definition applyAutoCheckoutIfDue :: "int \<Rightarrow> attendance_record \<Rightarrow> int \<Rightarrow> attendance_record" where
  "applyAutoCheckoutIfDue ceiling' record now =
     (case check_out_time record of
        Some out \<Rightarrow> record
      | None \<Rightarrow>
          (case check_in_time record of
             None \<Rightarrow> record
           | Some t_in \<Rightarrow>
               if now - t_in \<ge> ceiling'
               then record\<lparr>check_out_time := Some (t_in + ceiling'), is_auto_checkout := True\<rparr>
               else record))"


section \<open>Reports view: state, environment and helpers\<close>

text \<open>
  The Reports component is a React function component. Its state cells are declared with
  \<^verbatim>\<open>useState\<close>; \<open>initial_state\<close> lists their initial values (the cells \<^verbatim>\<open>autoRefresh\<close>,
  \<^verbatim>\<open>employees\<close> and \<^verbatim>\<open>departments\<close> are not read by the functions modelled here).
  A report object is a value of type \<open>'d\<close>; equality on \<open>'d\<close> stands for object identity.
\<close>

record filters =
  dateFrom :: string
  dateTo :: string
  department :: string
  employeeId :: string

record refresh_settings =
  interval :: nat
  enabled :: bool
  pauseOnError :: bool
  maxRetries :: nat

record 'd reports_state =
  reportType :: string
  filters :: filters
  reportData :: "'d option"
  loading :: bool
  error :: string
  lastGenerated :: "nat option"
  refreshInterval :: "nat option"
  refreshCountdown :: nat
  countdownInterval :: "nat option"
  isRefreshing :: bool
  refreshSettings :: refresh_settings
  retryCount :: nat

definition initial_state :: "string \<Rightarrow> string \<Rightarrow> 'd reports_state" where
  "initial_state monthAgo today =
     \<lparr>reportType = [],
      filters = \<lparr>dateFrom = monthAgo, dateTo = today, department = [], employeeId = []\<rparr>,
      reportData = None, loading = False, error = [], lastGenerated = None,
      refreshInterval = None, refreshCountdown = 0, countdownInterval = None,
      isRefreshing = False,
      refreshSettings = \<lparr>interval = 60, enabled = False, pauseOnError = True, maxRetries = 3\<rparr>,
      retryCount = 0\<rparr>"

text \<open>
  Each render of the component binds the state cells to constants; a function defined in
  that render (\<^verbatim>\<open>generateReport\<close>, \<^verbatim>\<open>stopAutoRefresh\<close>, a timer callback, ...) reads those
  constants for as long as it lives, and writes through the setters. So every function of
  the component is modelled with two states: \<open>snap\<close>, the values of the render that defined
  it (what it reads), and \<open>st\<close>, the state the setters update. A functional update
  \<^verbatim>\<open>setX(prev => ...)\<close> reads \<open>st\<close>.

  The environment holds what lies outside the component: the \<^verbatim>\<open>onNotification\<close> prop (it
  may be absent) with the notifications it received, the report calls sent to the service,
  the live interval timers of the browser (handle, kind, and the render whose callback the
  timer runs) and the files handed to the browser for download.
\<close>

datatype api_call =
    GenerateAttendanceSummary string string string
  | GenerateEmployeePerformance string string string
  | GenerateDepartmentReport string string string

datatype timer_kind = CountdownTimer | RefreshTimer

record 'd world =
  onNotification :: bool
  notifications :: "(string \<times> string) list"
  calls :: "api_call list"
  timers :: "(nat \<times> timer_kind \<times> 'd reports_state) list"
  next_timer :: nat
  downloads :: "(string \<times> string) list"

definition notify :: "string \<Rightarrow> string \<Rightarrow> 'd world \<Rightarrow> 'd world" where
  "notify message level w =
     (if onNotification w then w\<lparr>notifications := notifications w @ [(message, level)]\<rparr> else w)"

definition setInterval :: "timer_kind \<Rightarrow> 'd reports_state \<Rightarrow> 'd world \<Rightarrow> nat \<times> 'd world" where
  "setInterval k snap w =
     (next_timer w,
      w\<lparr>timers := timers w @ [(next_timer w, k, snap)], next_timer := Suc (next_timer w)\<rparr>)"

definition clearInterval :: "nat \<Rightarrow> 'd world \<Rightarrow> 'd world" where
  "clearInterval h w = w\<lparr>timers := filter (\<lambda>t. fst t \<noteq> h) (timers w)\<rparr>"

text \<open>
  \<^verbatim>\<open>new Date().toISOString()\<close> prints the UTC fields of the instant as
  \<^verbatim>\<open>YYYY-MM-DDTHH:mm:ss.sssZ\<close> (a year above 9999 gets a sign and six digits).
\<close>

record utc_instant =
  year :: nat
  month :: nat
  day :: nat
  hour :: nat
  minute :: nat
  second :: nat
  millisecond :: nat

definition pad :: "nat \<Rightarrow> nat \<Rightarrow> string" where
  "pad k n = replicate (k - length (digits n)) (CHR ''0'') @ digits n"

definition toISOString :: "utc_instant \<Rightarrow> string" where
  "toISOString t =
     (if year t \<le> 9999 then pad 4 (year t) else CHR ''+'' # pad 6 (year t))
     @ ''-'' @ pad 2 (month t) @ ''-'' @ pad 2 (day t)
     @ ''T'' @ pad 2 (hour t) @ '':'' @ pad 2 (minute t) @ '':'' @ pad 2 (second t)
     @ ''.'' @ pad 3 (millisecond t) @ ''Z''"

text \<open>\<^verbatim>\<open>s.split('T')[0]\<close>: the part of \<open>s\<close> before its first \<^verbatim>\<open>T\<close>.\<close>

definition split_T_0 :: "string \<Rightarrow> string" where
  "split_T_0 s = takeWhile (\<lambda>c. c \<noteq> CHR ''T'') s"


section \<open>Reports view: export\<close>

text \<open>
  \<^verbatim>\<open>
  const exportReport = () => {
    if (!reportData) {
      if (onNotification) { onNotification('No report data to export', 'warning'); }
      return;
    }
    const timestamp = new Date().toISOString().split('T')[0];
    const filename = `${reportType}-report-${timestamp}.json`;
    const dataStr = JSON.stringify(reportData, null, 2);
    ... link.download = filename; link.click(); ...
    if (onNotification) { onNotification(`Report exported as ${filename}`, 'success'); }
  };
  \<close>
  \<^verbatim>\<open>JSON.stringify\<close> is the platform's serialiser, a parameter of the model; \<open>now\<close> is the
  instant read from the clock. The function sets no state.
\<close>

definition exportReport ::
  "('d \<Rightarrow> string) \<Rightarrow> utc_instant \<Rightarrow> 'd reports_state \<Rightarrow> 'd world \<Rightarrow> 'd world" where
  "exportReport JSON_stringify now snap w =
     (case reportData snap of
        None \<Rightarrow> notify ''No report data to export'' ''warning'' w
      | Some data \<Rightarrow>
          let timestamp = split_T_0 (toISOString now);
              filename = reportType snap @ ''-report-'' @ timestamp @ ''.json'';
              dataStr = JSON_stringify data;
              w1 = w\<lparr>downloads := downloads w @ [(filename, dataStr)]\<rparr>
          in notify (''Report exported as '' @ filename) ''success'' w1)"


section \<open>Reports view: generating a report\<close>

text \<open>
  \<^verbatim>\<open>
  const generateReport = useCallback(async (silent = false) => {
    if (!reportType) {
      setError('Please select a report type');
      if (onNotification) { onNotification('Please select a report type', 'warning'); }
      return;
    }
    if (!filters.dateFrom || !filters.dateTo) {
      setError('Please select date range');
      if (onNotification) { onNotification('Please select date range', 'warning'); }
      return;
    }
    if (reportType === 'employee-performance' && !filters.employeeId) {
      setError('Please select an employee for performance report');
      if (onNotification) { onNotification('Please select an employee', 'warning'); }
      return;
    }
    if (reportType === 'department' && !filters.department) {
      setError('Please select a department for department report');
      if (onNotification) { onNotification('Please select a department', 'warning'); }
      return;
    }
    if (!silent) setLoading(true);
    setError('');
    try {
      let data;
      switch (reportType) {
        case 'attendance-summary':
          data = await generateAttendanceSummary(filters.dateFrom, filters.dateTo, filters.department);
          break;
        case 'employee-performance':
          data = await generateEmployeePerformance(filters.employeeId, filters.dateFrom, filters.dateTo);
          break;
        case 'department':
          data = await generateDepartmentReport(filters.department, filters.dateFrom, filters.dateTo);
          break;
        default:
          throw new Error('Invalid report type');
      }
      setReportData(data);
      setLastGenerated(new Date());
      if (onNotification && !silent) { onNotification('Report generated successfully', 'success'); }
    } catch (error) {
      console.error('Report generation failed:', error);
      const errorMsg = error.message || 'Failed to generate report';
      setError(errorMsg);
      if (onNotification) { onNotification(errorMsg, 'error'); }
    } finally {
      if (!silent) setLoading(false);
    }
  }, [reportType, filters, onNotification]);
  \<close>
  The function is asynchronous: it runs up to the call of the report service, and resumes
  when the service answers. \<open>generateReport_start\<close> is the first part; its result says
  whether the function is already over (and how it completed) or waits for the answer to a
  call. \<open>generateReport_finish\<close> is the second part, run with the answer: \<open>Inr data\<close> when
  the promise is fulfilled, \<open>Inl message\<close> when it is rejected (\<open>message\<close> is the error's
  \<^verbatim>\<open>message\<close>, empty when it has none). An empty string is the only falsy value of the
  filters and of the report type. The \<^verbatim>\<open>catch\<close> block handles the error and does not throw
  it again, so every path completes with \<open>Return\<close>.
\<close>

datatype progress = Over "unit completion" | Awaiting api_call

definition generateReport_catch ::
  "bool \<Rightarrow> string \<Rightarrow> 'd reports_state \<times> 'd world \<Rightarrow> unit completion \<times> 'd reports_state \<times> 'd world" where
  "generateReport_catch silent message sw =
     (case sw of (st, w) \<Rightarrow>
        let errorMsg = (if message = [] then ''Failed to generate report'' else message);
            st1 = st\<lparr>error := errorMsg\<rparr>;
            w1 = notify errorMsg ''error'' w;
            st2 = (if \<not> silent then st1\<lparr>loading := False\<rparr> else st1)
        in (Return (), st2, w1))"

definition generateReport_start ::
  "'d reports_state \<Rightarrow> bool \<Rightarrow> 'd reports_state \<times> 'd world \<Rightarrow> progress \<times> 'd reports_state \<times> 'd world" where
  "generateReport_start snap silent sw =
     (case sw of (st, w) \<Rightarrow>
        if reportType snap = [] then
          (Over (Return ()), st\<lparr>error := ''Please select a report type''\<rparr>,
           notify ''Please select a report type'' ''warning'' w)
        else if dateFrom (filters snap) = [] \<or> dateTo (filters snap) = [] then
          (Over (Return ()), st\<lparr>error := ''Please select date range''\<rparr>,
           notify ''Please select date range'' ''warning'' w)
        else if reportType snap = ''employee-performance'' \<and> employeeId (filters snap) = [] then
          (Over (Return ()), st\<lparr>error := ''Please select an employee for performance report''\<rparr>,
           notify ''Please select an employee'' ''warning'' w)
        else if reportType snap = ''department'' \<and> department (filters snap) = [] then
          (Over (Return ()), st\<lparr>error := ''Please select a department for department report''\<rparr>,
           notify ''Please select a department'' ''warning'' w)
        else
          let st1 = (if \<not> silent then st\<lparr>loading := True\<rparr> else st);
              st2 = st1\<lparr>error := []\<rparr>;
              f = filters snap
          in if reportType snap = ''attendance-summary'' then
               (let c = GenerateAttendanceSummary (dateFrom f) (dateTo f) (department f)
                in (Awaiting c, st2, w\<lparr>calls := calls w @ [c]\<rparr>))
             else if reportType snap = ''employee-performance'' then
               (let c = GenerateEmployeePerformance (employeeId f) (dateFrom f) (dateTo f)
                in (Awaiting c, st2, w\<lparr>calls := calls w @ [c]\<rparr>))
             else if reportType snap = ''department'' then
               (let c = GenerateDepartmentReport (department f) (dateFrom f) (dateTo f)
                in (Awaiting c, st2, w\<lparr>calls := calls w @ [c]\<rparr>))
             else
               (case generateReport_catch silent ''Invalid report type'' (st2, w) of
                  (outcome, sw') \<Rightarrow> (Over outcome, sw')))"

definition generateReport_finish ::
  "bool \<Rightarrow> string + 'd \<Rightarrow> nat \<Rightarrow> 'd reports_state \<times> 'd world \<Rightarrow> unit completion \<times> 'd reports_state \<times> 'd world" where
  "generateReport_finish silent answer now sw =
     (case answer of
        Inr data \<Rightarrow>
          (case sw of (st, w) \<Rightarrow>
             let st1 = st\<lparr>reportData := Some data, lastGenerated := Some now\<rparr>;
                 w1 = (if \<not> silent then notify ''Report generated successfully'' ''success'' w else w);
                 st2 = (if \<not> silent then st1\<lparr>loading := False\<rparr> else st1)
             in (Return (), st2, w1))
      | Inl message \<Rightarrow> generateReport_catch silent message sw)"

text \<open>
  One whole invocation, the service answering \<open>service c\<close> to the call \<open>c\<close> with nothing
  else happening in between.
\<close>

definition generateReport ::
  "'d reports_state \<Rightarrow> bool \<Rightarrow> (api_call \<Rightarrow> string + 'd) \<Rightarrow> nat \<Rightarrow> 'd reports_state \<times> 'd world
     \<Rightarrow> unit completion \<times> 'd reports_state \<times> 'd world" where
  "generateReport snap silent service now sw =
     (case generateReport_start snap silent sw of
        (Over outcome, sw') \<Rightarrow> (outcome, sw')
      | (Awaiting c, sw') \<Rightarrow> generateReport_finish silent (service c) now sw')"


section \<open>Reports view: the refresh controller\<close>

text \<open>
  \<^verbatim>\<open>
  const startAutoRefresh = () => {
    stopAutoRefresh(); // Clear any existing intervals
    const intervalMs = refreshSettings.interval * 1000;
    setRefreshCountdown(refreshSettings.interval);
    // Countdown timer
    const countdown = setInterval(() => {
      setRefreshCountdown(prev => {
        if (prev <= 1) { return refreshSettings.interval; }
        return prev - 1;
      });
    }, 1000);
    // Refresh timer
    const refresh = setInterval(async () => {
      if (!isRefreshing) { await performAutoRefresh(); }
    }, intervalMs);
    setCountdownInterval(countdown);
    setRefreshInterval(refresh);
  };
  const stopAutoRefresh = () => {
    if (refreshInterval) { clearInterval(refreshInterval); setRefreshInterval(null); }
    if (countdownInterval) { clearInterval(countdownInterval); setCountdownInterval(null); }
    setRefreshCountdown(0);
  };
  const performAutoRefresh = async () => {
    setIsRefreshing(true);
    try {
      await generateReport(true);
      setRetryCount(0); // Reset retry count on success
    } catch (error) {
      console.error('Auto-refresh failed:', error);
      setRetryCount(prev => prev + 1);
      if (refreshSettings.pauseOnError && retryCount >= refreshSettings.maxRetries) {
        setRefreshSettings(prev => ({ ...prev, enabled: false }));
        if (onNotification) {
          onNotification(`Auto-refresh paused after ${refreshSettings.maxRetries} failed attempts`, 'warning');
        }
      }
    } finally {
      setIsRefreshing(false);
    }
  };
  const toggleAutoRefresh = () => {
    setRefreshSettings(prev => ({ ...prev, enabled: !prev.enabled }));
    if (onNotification) {
      onNotification(refreshSettings.enabled ? 'Auto-refresh disabled' : 'Auto-refresh enabled', 'info');
    }
  };
  \<close>
  Timer handles of the browser are positive numbers, so a stored handle is truthy.
\<close>

definition stopAutoRefresh ::
  "'d reports_state \<Rightarrow> 'd reports_state \<times> 'd world \<Rightarrow> 'd reports_state \<times> 'd world" where
  "stopAutoRefresh snap sw =
     (case sw of (st, w) \<Rightarrow>
        let (st1, w1) = (case refreshInterval snap of
                           Some h \<Rightarrow> (st\<lparr>refreshInterval := None\<rparr>, clearInterval h w)
                         | None \<Rightarrow> (st, w));
            (st2, w2) = (case countdownInterval snap of
                           Some h \<Rightarrow> (st1\<lparr>countdownInterval := None\<rparr>, clearInterval h w1)
                         | None \<Rightarrow> (st1, w1))
        in (st2\<lparr>refreshCountdown := 0\<rparr>, w2))"

definition startAutoRefresh ::
  "'d reports_state \<Rightarrow> 'd reports_state \<times> 'd world \<Rightarrow> 'd reports_state \<times> 'd world" where
  "startAutoRefresh snap sw =
     (case stopAutoRefresh snap sw of (st1, w1) \<Rightarrow>
        let st2 = st1\<lparr>refreshCountdown := interval (refreshSettings snap)\<rparr>;
            (countdown, w2) = setInterval CountdownTimer snap w1;
            (refresh, w3) = setInterval RefreshTimer snap w2
        in (st2\<lparr>countdownInterval := Some countdown, refreshInterval := Some refresh\<rparr>, w3))"

text \<open>The code of \<^verbatim>\<open>performAutoRefresh\<close> after \<^verbatim>\<open>await generateReport(true)\<close> has completed.\<close>

definition performAutoRefresh_settle ::
  "'d reports_state \<Rightarrow> unit completion \<Rightarrow> 'd reports_state \<times> 'd world \<Rightarrow> 'd reports_state \<times> 'd world" where
  "performAutoRefresh_settle snap outcome sw =
     (case sw of (st, w) \<Rightarrow>
        let (st1, w1) =
              (case outcome of
                 Return u \<Rightarrow> (st\<lparr>retryCount := 0\<rparr>, w)
               | Throw e \<Rightarrow>
                   let st' = st\<lparr>retryCount := retryCount st + 1\<rparr>
                   in if pauseOnError (refreshSettings snap)
                         \<and> retryCount snap \<ge> maxRetries (refreshSettings snap)
                      then (st'\<lparr>refreshSettings := (refreshSettings st')\<lparr>enabled := False\<rparr>\<rparr>,
                            notify (''Auto-refresh paused after ''
                                     @ digits (maxRetries (refreshSettings snap))
                                     @ '' failed attempts'') ''warning'' w)
                      else (st', w))
        in (st1\<lparr>isRefreshing := False\<rparr>, w1))"

definition performAutoRefresh_start ::
  "'d reports_state \<Rightarrow> 'd reports_state \<times> 'd world \<Rightarrow> api_call option \<times> 'd reports_state \<times> 'd world" where
  "performAutoRefresh_start snap sw =
     (case sw of (st, w) \<Rightarrow>
        (case generateReport_start snap True (st\<lparr>isRefreshing := True\<rparr>, w) of
           (Over outcome, sw') \<Rightarrow> (None, performAutoRefresh_settle snap outcome sw')
         | (Awaiting c, sw') \<Rightarrow> (Some c, sw')))"

definition performAutoRefresh_finish ::
  "'d reports_state \<Rightarrow> string + 'd \<Rightarrow> nat \<Rightarrow> 'd reports_state \<times> 'd world \<Rightarrow> 'd reports_state \<times> 'd world" where
  "performAutoRefresh_finish snap answer now sw =
     (case generateReport_finish True answer now sw of
        (outcome, sw') \<Rightarrow> performAutoRefresh_settle snap outcome sw')"

text \<open>One whole scheduled refresh, the service answering \<open>service c\<close> to the call \<open>c\<close>.\<close>

definition performAutoRefresh ::
  "'d reports_state \<Rightarrow> (api_call \<Rightarrow> string + 'd) \<Rightarrow> nat \<Rightarrow> 'd reports_state \<times> 'd world
     \<Rightarrow> 'd reports_state \<times> 'd world" where
  "performAutoRefresh snap service now sw =
     (case performAutoRefresh_start snap sw of
        (None, sw') \<Rightarrow> sw'
      | (Some c, sw') \<Rightarrow> performAutoRefresh_finish snap (service c) now sw')"

text \<open>The callbacks of the two timers, and the handler of the check box.\<close>

definition countdownTick ::
  "'d reports_state \<Rightarrow> 'd reports_state \<times> 'd world \<Rightarrow> 'd reports_state \<times> 'd world" where
  "countdownTick snap sw =
     (case sw of (st, w) \<Rightarrow>
        (st\<lparr>refreshCountdown :=
               (if refreshCountdown st \<le> 1 then interval (refreshSettings snap)
                else refreshCountdown st - 1)\<rparr>, w))"

definition refreshTick ::
  "'d reports_state \<Rightarrow> 'd reports_state \<times> 'd world \<Rightarrow> api_call option \<times> 'd reports_state \<times> 'd world" where
  "refreshTick snap sw =
     (if \<not> isRefreshing snap then performAutoRefresh_start snap sw else (None, sw))"

definition toggleAutoRefresh ::
  "'d reports_state \<Rightarrow> 'd reports_state \<times> 'd world \<Rightarrow> 'd reports_state \<times> 'd world" where
  "toggleAutoRefresh snap sw =
     (case sw of (st, w) \<Rightarrow>
        (st\<lparr>refreshSettings := (refreshSettings st)\<lparr>enabled := \<not> enabled (refreshSettings st)\<rparr>\<rparr>,
         notify (if enabled (refreshSettings snap) then ''Auto-refresh disabled''
                 else ''Auto-refresh enabled'') ''info'' w))"


section \<open>Reports view: renders, the refresh effect and events\<close>

text \<open>
  \<^verbatim>\<open>
  useEffect(() => {
    if (refreshSettings.enabled && reportData && reportType) {
      startAutoRefresh();
    } else {
      stopAutoRefresh();
    }
    return () => stopAutoRefresh();
  }, [refreshSettings.enabled, reportData, reportType, refreshSettings.interval]);
  \<close>
  React runs the effect after the first render and after each later render in which one of
  the four listed dependencies differs from its value at the previous run; before a
  re-run, and when the view is discarded, it calls the function the previous run
  returned. The effect body and the returned function belong to the render of their run:
  \<open>effect_render\<close> keeps the state values of that render. The state cells \<^verbatim>\<open>isRefreshing\<close>,
  \<^verbatim>\<open>retryCount\<close>, \<^verbatim>\<open>refreshInterval\<close> and \<^verbatim>\<open>countdownInterval\<close> are not dependencies, so a
  change of theirs leaves the effect, its cleanup and the timer callbacks as they are.

  A mounted component is the pair of states with the environment and the report calls that
  are not answered yet (each with the render of the \<^verbatim>\<open>performAutoRefresh\<close> that awaits it,
  or \<open>None\<close> for a call made by a button through \<^verbatim>\<open>generateReport(false)\<close>).
\<close>

record 'd component =
  effect_render :: "'d reports_state"
  state :: "'d reports_state"
  world :: "'d world"
  in_flight :: "(api_call \<times> 'd reports_state option) list"

definition refreshEffect ::
  "'d reports_state \<Rightarrow> 'd reports_state \<times> 'd world \<Rightarrow> 'd reports_state \<times> 'd world" where
  "refreshEffect snap sw =
     (if enabled (refreshSettings snap) \<and> reportData snap \<noteq> None \<and> reportType snap \<noteq> []
      then startAutoRefresh snap sw
      else stopAutoRefresh snap sw)"

definition effect_deps :: "'d reports_state \<Rightarrow> bool \<times> 'd option \<times> string \<times> nat" where
  "effect_deps st =
     (enabled (refreshSettings st), reportData st, reportType st, interval (refreshSettings st))"

text \<open>
  \<open>commit\<close>: the state has changed and the component renders again. When a dependency has
  changed, the cleanup of the previous run is called and then the effect of the new
  render. The setters called by the effect cause one more render, in which no dependency
  has changed.
\<close>

definition commit :: "'d component \<Rightarrow> 'd component" where
  "commit c =
     (if effect_deps (state c) = effect_deps (effect_render c) then c
      else let cur = state c;
               (st1, w1) = stopAutoRefresh (effect_render c) (cur, world c);
               (st2, w2) = refreshEffect cur (st1, w1)
           in c\<lparr>effect_render := cur, state := st2, world := w2\<rparr>)"

definition mount :: "string \<Rightarrow> string \<Rightarrow> 'd world \<Rightarrow> 'd component" where
  "mount monthAgo today w =
     (let st0 = initial_state monthAgo today;
          (st1, w1) = refreshEffect st0 (st0, w)
      in \<lparr>effect_render = st0, state = st1, world = w1, in_flight = []\<rparr>)"

text \<open>Discarding the view: the cleanup of the last effect run is called; the environment remains.\<close>

definition unmount :: "'d component \<Rightarrow> 'd world" where
  "unmount c = snd (stopAutoRefresh (effect_render c) (state c, world c))"

text \<open>
  The events of the view. A handler attached to a button belongs to the latest render, whose
  values are those of the current state; a timer callback belongs to the render that
  created the timer.
\<close>

definition selectReportType :: "string \<Rightarrow> 'd component \<Rightarrow> 'd component" where
  "selectReportType t c = commit (c\<lparr>state := (state c)\<lparr>reportType := t\<rparr>\<rparr>)"

definition clickGenerate :: "'d component \<Rightarrow> 'd component" where
  "clickGenerate c =
     (case generateReport_start (state c) False (state c, world c) of
        (Over outcome, st, w) \<Rightarrow> commit (c\<lparr>state := st, world := w\<rparr>)
      | (Awaiting call, st, w) \<Rightarrow>
          commit (c\<lparr>state := st, world := w, in_flight := in_flight c @ [(call, None)]\<rparr>))"

definition clickToggle :: "'d component \<Rightarrow> 'd component" where
  "clickToggle c =
     (case toggleAutoRefresh (state c) (state c, world c) of
        (st, w) \<Rightarrow> commit (c\<lparr>state := st, world := w\<rparr>))"

definition fire :: "nat \<Rightarrow> 'd component \<Rightarrow> 'd component" where
  "fire h c =
     (case find (\<lambda>t. fst t = h) (timers (world c)) of
        None \<Rightarrow> c
      | Some (h', CountdownTimer, snap) \<Rightarrow>
          (case countdownTick snap (state c, world c) of
             (st, w) \<Rightarrow> commit (c\<lparr>state := st, world := w\<rparr>))
      | Some (h', RefreshTimer, snap) \<Rightarrow>
          (case refreshTick snap (state c, world c) of
             (None, st, w) \<Rightarrow> commit (c\<lparr>state := st, world := w\<rparr>)
           | (Some call, st, w) \<Rightarrow>
               commit (c\<lparr>state := st, world := w,
                         in_flight := in_flight c @ [(call, Some snap)]\<rparr>)))"

text \<open>The service answers the oldest call in flight.\<close>

definition answer :: "string + 'd \<Rightarrow> nat \<Rightarrow> 'd component \<Rightarrow> 'd component" where
  "answer a now c =
     (case in_flight c of
        [] \<Rightarrow> c
      | (call, None) # rest \<Rightarrow>
          (case generateReport_finish False a now (state c, world c) of
             (outcome, st, w) \<Rightarrow> commit (c\<lparr>state := st, world := w, in_flight := rest\<rparr>))
      | (call, Some snap) # rest \<Rightarrow>
          (case performAutoRefresh_finish snap a now (state c, world c) of
             (st, w) \<Rightarrow> commit (c\<lparr>state := st, world := w, in_flight := rest\<rparr>)))"

text \<open>
  A concrete session used below: the view is opened on 2 November 2026 with the
  notification prop, the user picks the attendance summary, generates it (the service
  answers with report 7), and ticks the auto-refresh box. Timer handles start at 1.
\<close>

definition empty_world :: "nat world" where
  "empty_world =
     \<lparr>onNotification = True, notifications = [], calls = [], timers = [], next_timer = 1,
      downloads = []\<rparr>"

definition refreshing_view :: "nat component" where
  "refreshing_view =
     clickToggle (answer (Inr 7) 1000 (clickGenerate
       (selectReportType ''attendance-summary'' (mount ''2026-10-03'' ''2026-11-02'' empty_world))))"

text \<open>
  The select box of the refresh interval:
  \<^verbatim>\<open>onChange={(e) => setRefreshSettings(prev => ({ ...prev, interval: parseInt(e.target.value) }))}\<close>.
  \<open>fast_refreshing_view\<close> is the example session after the user has chosen 30 seconds: the
  effect runs again and replaces the timers 1 and 2 by the timers 3 (countdown) and
  4 (refresh). \<open>first_tick\<close> and \<open>second_tick\<close> are that session after timer 4 has fired
  once and twice, the service not having answered. \<open>one_failure\<close> and \<open>four_failures\<close> are
  the example session after one and after four scheduled refreshes that the service has
  each answered with the rejection \<open>Network Error\<close>. \<open>discarded_view\<close> is the environment
  left when the view of the example session is discarded.
\<close>

definition selectInterval :: "nat \<Rightarrow> 'd component \<Rightarrow> 'd component" where
  "selectInterval seconds c =
     commit (c\<lparr>state := (state c)\<lparr>refreshSettings :=
                                     (refreshSettings (state c))\<lparr>interval := seconds\<rparr>\<rparr>\<rparr>)"

definition fast_refreshing_view :: "nat component" where
  "fast_refreshing_view = selectInterval 30 refreshing_view"

definition first_tick :: "nat component" where
  "first_tick = fire 4 fast_refreshing_view"

definition second_tick :: "nat component" where
  "second_tick = fire 4 first_tick"

definition one_failure :: "nat component" where
  "one_failure = answer (Inl ''Network Error'') 2000 (fire 2 refreshing_view)"

definition four_failures :: "nat component" where
  "four_failures =
     answer (Inl ''Network Error'') 5000 (fire 2
       (answer (Inl ''Network Error'') 4000 (fire 2
         (answer (Inl ''Network Error'') 3000 (fire 2 one_failure)))))"

definition discarded_view :: "nat world" where
  "discarded_view = unmount refreshing_view"

text \<open>A record of 2 November 2026 with the given status and check-in and check-out instants.\<close>

definition sample_record :: "string \<Rightarrow> int option \<Rightarrow> int option \<Rightarrow> attendance_record" where
  "sample_record s t_in t_out =
     \<lparr>employee_id = ''E1'', date = ''2026-11-02'', status = s, check_in_time = t_in,
      check_out_time = t_out, is_auto_checkout = False, notes' = []\<rparr>"


text \<open>
  The date bounds a call carries, and the order \<^verbatim>\<open>from > to\<close> of two dates written
  \<^verbatim>\<open>YYYY-MM-DD\<close> (the order of JavaScript strings, character by character).
\<close>

fun call_range :: "api_call \<Rightarrow> string \<times> string" where
  "call_range (GenerateAttendanceSummary f t d) = (f, t)"
| "call_range (GenerateEmployeePerformance e f t) = (f, t)"
| "call_range (GenerateDepartmentReport d f t) = (f, t)"

fun date_after :: "string \<Rightarrow> string \<Rightarrow> bool" where
  "date_after [] t = False"
| "date_after (a # as) [] = True"
| "date_after (a # as) (b # bs) = ((of_char b :: nat) < of_char a \<or> (a = b \<and> date_after as bs))"

text \<open>
  Modelled from the spec: the report service that answers the three report calls (the
  ReportAggregator) is not among the sources; only its client is (\<^verbatim>\<open>reportsAPI\<close>, which
  passes \<^verbatim>\<open>date_from\<close> and \<^verbatim>\<open>date_to\<close> on as they are). The definition follows the
  specification: a "pure function family ... parameterized by a date range \<open>[from, to]\<close>
  (inclusive, both required, fails with \<open>InvalidRange\<close> if \<open>from > to\<close>)". \<open>aggregate\<close> stands
  for the report it builds over a range that is in order.
\<close>

definition reportAggregator :: "(api_call \<Rightarrow> 'd) \<Rightarrow> api_call \<Rightarrow> string + 'd" where
  "reportAggregator aggregate c =
     (case call_range c of
        (dFrom, dTo) \<Rightarrow> if date_after dFrom dTo then Inl ''InvalidRange'' else Inr (aggregate c))"

text \<open>Three views, a service that is out of reach, and an instant, used as examples.\<close>

definition department_view :: "nat reports_state" where
  "department_view = (initial_state ''2026-10-03'' ''2026-11-02'')\<lparr>reportType := ''department''\<rparr>"

definition reversed_range_view :: "nat reports_state" where
  "reversed_range_view =
     (initial_state ''2026-11-02'' ''2026-10-03'')\<lparr>reportType := ''attendance-summary''\<rparr>"

definition open_range_view :: "nat reports_state" where
  "open_range_view = (initial_state [] ''2026-11-02'')\<lparr>reportType := ''attendance-summary''\<rparr>"

definition failing_service :: "api_call \<Rightarrow> string + nat" where
  "failing_service c = Inl ''Network Error''"

definition noon :: utc_instant where
  "noon = \<lparr>year = 2026, month = 11, day = 2, hour = 12, minute = 0, second = 0, millisecond = 0\<rparr>"


section \<open>Rounding to a double: error bound and exact cases\<close>

lemma round_half_even_err: "\<bar>of_int (round_half_even y) - y\<bar> \<le> 1 / 2"
  unfolding round_half_even_def Let_def by (auto simp: abs_if) linarith+

lemma round_half_even_of_int: "round_half_even (of_int z) = z"
  by (simp add: round_half_even_def)

lemma ilog2_lower:
  assumes "0 < x"
  shows "2 powi (ilog2 x) \<le> x"
proof -
  obtain a b where q: "quotient_of x = (a, b)" by (cases "quotient_of x")
  have b: "0 < b" using q by (rule quotient_of_denom_pos)
  have x: "x = of_int a / of_int b" using q by (rule quotient_of_div)
  have a: "0 < a" using assms b x by (simp add: zero_less_divide_iff)
  let ?e0 = "bitlen a - bitlen b"
  have la: "(2::rat) ^ nat (bitlen a - 1) \<le> of_int a"
    using bitlen_bounds[OF a] by (metis of_int_le_iff of_int_numeral of_int_power)
  have lb: "of_int b < (2::rat) ^ nat (bitlen b)"
    using bitlen_bounds[OF b] by (metis of_int_less_iff of_int_numeral of_int_power)
  have ba: "1 \<le> bitlen a" "1 \<le> bitlen b" using a b by (auto simp: bitlen_alt_def)
  have "(2::rat) powi (?e0 - 1) = 2 powi (bitlen a - 1) / 2 powi (bitlen b)"
    by (simp add: power_int_diff)
  also have "\<dots> = 2 ^ nat (bitlen a - 1) / 2 ^ nat (bitlen b)"
    using ba by (simp add: power_int_def)
  also have "\<dots> \<le> of_int a / of_int b"
    using la lb b a by (intro frac_le) auto
  finally have low: "(2::rat) powi (?e0 - 1) \<le> x" using x by simp
  show ?thesis
    using low q by (auto simp: ilog2_def Let_def)
qed

lemma fl_pos_eq:
  assumes "0 < x"
  shows "fl x = of_int (round_half_even (x / 2 powi (ilog2 x - 52))) * 2 powi (ilog2 x - 52)"
  using assms by (simp add: fl_def Let_def)

text \<open>The relative error of rounding is at most \<open>2 ^ - 53\<close>.\<close>

lemma fl_err:
  assumes "0 < x"
  shows "\<bar>fl x - x\<bar> \<le> x / 2 ^ 53"
proof -
  let ?u = "(2::rat) powi (ilog2 x - 52)"
  have u: "0 < ?u" by simp
  have "fl x - x = (of_int (round_half_even (x / ?u)) - x / ?u) * ?u"
    using u by (simp add: fl_pos_eq[OF assms] algebra_simps)
  then have "\<bar>fl x - x\<bar> = \<bar>of_int (round_half_even (x / ?u)) - x / ?u\<bar> * ?u"
    using u by (simp add: abs_mult)
  also have "\<dots> \<le> (1 / 2) * ?u"
    using round_half_even_err[of "x / ?u"] u by (intro mult_right_mono) auto
  also have "\<dots> = 2 powi (ilog2 x) / 2 ^ 53"
    by (simp add: power_int_diff)
  also have "\<dots> \<le> x / 2 ^ 53"
    using ilog2_lower[OF assms] by (simp add: divide_right_mono)
  finally show ?thesis .
qed

text \<open>A positive whole number below \<open>2 ^ 53\<close> is a double.\<close>

lemma fl_of_int_exact:
  assumes "0 < q" "q < 2 ^ 53"
  shows "fl (of_int q) = of_int q"
proof -
  let ?x = "of_int q :: rat"
  have x: "0 < ?x" using assms by simp
  have "2 powi (ilog2 ?x) \<le> ?x" by (rule ilog2_lower[OF x])
  also have "?x < 2 powi 53" using assms(2)
    by (metis of_int_less_iff of_int_numeral of_int_power power_int_numeral)
  finally have "(2::rat) powi (ilog2 ?x) < 2 powi 53" .
  then have e: "ilog2 ?x \<le> 52"
    by (smt (verit) power_int_increasing one_le_numeral not_less)
  define k where "k = nat (52 - ilog2 ?x)"
  have u: "(2::rat) powi (ilog2 ?x - 52) = 1 / 2 ^ k"
    using e by (simp add: power_int_def k_def field_simps)
  have "?x / 2 powi (ilog2 ?x - 52) = of_int (q * 2 ^ k)"
    by (simp add: u)
  then have "round_half_even (?x / 2 powi (ilog2 ?x - 52)) = q * 2 ^ k"
    by (simp only: round_half_even_of_int)
  then show ?thesis
    by (simp add: fl_pos_eq[OF x] u)
qed

text \<open>
  \<^verbatim>\<open>Math.floor(minutes / 60)\<close> is the integer quotient for every whole number of minutes below
  \<open>2 ^ 53\<close>: either the quotient is exact, or it lies at least \<open>1/60\<close> away from the next whole
  number, which is more than the rounding error.
\<close>

lemma floor_js_div_60:
  assumes "0 < m" "m < 2 ^ 53"
  shows "Math_floor (js_div (of_int m) 60) = m div 60"
proof (cases "m mod 60 = 0")
  case True
  then have m: "m = 60 * (m div 60)" by (simp add: mod_eq_0_iff_dvd)
  have "(of_int m :: rat) / 60 = of_int (m div 60)"
    by (subst m) simp
  moreover have "0 < m div 60" "m div 60 < 2 ^ 53"
    using assms m by linarith+
  ultimately show ?thesis
    by (simp add: Math_floor_def js_div_def fl_of_int_exact)
next
  case False
  let ?x = "of_int m / 60 :: rat"
  have x: "0 < ?x" using assms by simp
  have "0 \<le> m mod 60" "m mod 60 < 60" by simp_all
  with False have r: "1 \<le> m mod 60" "m mod 60 \<le> 59" by linarith+
  have m: "m = 60 * (m div 60) + m mod 60" by simp
  have "(of_int m :: rat) = 60 * of_int (m div 60) + of_int (m mod 60)"
    by (metis m of_int_add of_int_mult of_int_numeral)
  then have xq: "?x = of_int (m div 60) + of_int (m mod 60) / 60"
    by (simp add: field_simps)
  have "(of_int m :: rat) < 2 ^ 53"
    using assms(2) by (metis of_int_less_iff of_int_numeral of_int_power)
  then have "?x / 2 ^ 53 < 1 / 60" by (simp add: field_simps)
  then have err: "\<bar>fl ?x - ?x\<bar> < 1 / 60"
    using fl_err[OF x] by linarith
  have r1: "(1::rat) / 60 \<le> of_int (m mod 60) / 60"
    using r(1) by (simp add: divide_right_mono)
  have r2: "of_int (m mod 60) / 60 \<le> (59::rat) / 60"
    using r(2) by (simp add: divide_right_mono)
  have "of_int (m div 60) \<le> fl ?x" "fl ?x < of_int (m div 60) + 1"
    using err r1 r2 xq by linarith+
  then have "\<lfloor>fl ?x\<rfloor> = m div 60" by (simp add: floor_unique)
  then show ?thesis by (simp add: Math_floor_def js_div_def)
qed

lemma js_rem_pos: "0 < m \<Longrightarrow> js_rem m 60 = m mod 60"
  by (simp add: js_rem_def)


section \<open>The duration label\<close>

text \<open>
  Claim C5, as amended. For every whole number of minutes \<open>m\<close> with \<open>0 \<le> m < 2 ^ 53\<close>,
  \<open>formatDuration\<close> returns the label \<open>{H}h {M}m\<close> with \<open>H = m div 60\<close> and \<open>M = m mod 60\<close>,
  both printed in decimal. For a missing value, for zero and for every negative number
  it returns \<open>0h 0m\<close>. It never throws, whatever the input.
\<close>

theorem formatDuration_label:
  "(0 \<le> m \<and> m < 2 ^ 53 \<longrightarrow>
      formatDuration (Some m) = Return (js_string (m div 60) @ ''h '' @ js_string (m mod 60) @ ''m''))
   \<and> (m \<le> 0 \<longrightarrow> formatDuration (Some m) = Return ''0h 0m'')
   \<and> formatDuration None = Return ''0h 0m''
   \<and> (\<forall>minutes. \<exists>label. formatDuration minutes = Return label)"
proof (intro conjI impI allI)
  assume m: "0 \<le> m \<and> m < 2 ^ 53"
  show "formatDuration (Some m) = Return (js_string (m div 60) @ ''h '' @ js_string (m mod 60) @ ''m'')"
  proof (cases "m = 0")
    case True
    then show ?thesis by (simp add: formatDuration_def js_string_def)
  next
    case False
    with m have "0 < m" "m < 2 ^ 53" by auto
    then show ?thesis
      by (simp add: formatDuration_def Let_def floor_js_div_60 js_rem_pos)
  qed
next
  assume "m \<le> 0"
  then show "formatDuration (Some m) = Return ''0h 0m''"
    by (auto simp: formatDuration_def)
next
  show "formatDuration None = Return ''0h 0m''"
    by (simp add: formatDuration_def)
next
  fix minutes
  show "\<exists>label. formatDuration minutes = Return label"
    by (cases minutes) (auto simp: formatDuration_def Let_def)
qed

text \<open>The label of a span of 9 hours 30 minutes, and of no time at all.\<close>

theorem formatDuration_label_witness:
  "(0::int) \<le> 570 \<and> (570::int) < 2 ^ 53 \<and> formatDuration (Some 570) = Return ''9h 30m''
   \<and> formatDuration (Some 0) = Return ''0h 0m''"
  using formatDuration_label [of 570] formatDuration_label [of 0]
  by (simp add: js_string_def)

text \<open>
  Claim C5 as it was stated has the function throw on a negative duration. It does not:
  the guard \<^verbatim>\<open>minutes <= 0\<close> returns the zero label for a duration of \<open>- 5\<close> minutes.
\<close>

theorem formatDuration_negative_returns: "formatDuration (Some (- 5)) = Return ''0h 0m''"
  by (simp add: formatDuration_def)


section \<open>The attendance rate\<close>

lemma calculateAttendanceRate_no_records: "calculateAttendanceRate p 0 = 0"
  by (simp add: calculateAttendanceRate_def)

lemma attendanceRateCard_no_records: "attendanceRateCard (getAttendanceStats today []) = None"
  by (simp add: attendanceRateCard_def getAttendanceStats_def getTodayAttendance_def)

text \<open>
  Claim C2 says that the rate is \<open>round(100 * (present + late) / total)\<close>. With 20 present
  and 3 late records out of 40, that is \<open>round(57.5) = 58\<close>. The code divides first:
  \<open>23 / 40\<close> is not a double, the nearest double lies just below \<open>0.575\<close>, its product with
  100 rounds to the double just below \<open>57.5\<close>, and \<^verbatim>\<open>Math.round\<close> gives 57.
\<close>

theorem calculateAttendanceRate_tie:
  "calculateAttendanceRate (20 + 3) 40 = 57 \<and> Math_round (100 * (20 + 3) / 40) = 58"
  by code_simp

text \<open>The rate card of the attendance page shows the same 57 for such a day.\<close>

lemma attendanceRateCard_tie:
  "attendanceRateCard (getAttendanceStats ''2026-11-02''
      (replicate 20 (sample_record ''Present'' (Some 540) None)
       @ replicate 3 (sample_record ''Late'' (Some 600) None)
       @ replicate 17 (sample_record ''Absent'' None None))) = Some 57"
  by code_simp


section \<open>Automatic check-out\<close>

text \<open>
  Claim C4. \<open>applyAutoCheckoutIfDue\<close> is idempotent on completed records: a record whose
  \<open>check_out_time\<close> is set is returned unchanged at every instant, so applying the function
  twice (at any two instants) gives what applying it once gives. Applying it twice at one
  instant equals applying it once for every record, completed or not.
\<close>

theorem applyAutoCheckoutIfDue_idempotent:
  "(check_out_time r \<noteq> None \<longrightarrow>
      applyAutoCheckoutIfDue c r now = r
      \<and> applyAutoCheckoutIfDue c (applyAutoCheckoutIfDue c r now) now' = applyAutoCheckoutIfDue c r now)
   \<and> applyAutoCheckoutIfDue c (applyAutoCheckoutIfDue c r now) now = applyAutoCheckoutIfDue c r now"
  by (auto simp: applyAutoCheckoutIfDue_def split: option.splits)

text \<open>
  A record checked in at 08:00 and out at 17:30 stays as it is at 18:05, and again at 23:00,
  with a ceiling of 600 minutes.
\<close>

theorem applyAutoCheckoutIfDue_idempotent_witness:
  "check_out_time (sample_record ''Present'' (Some 480) (Some 1050)) \<noteq> None
   \<and> applyAutoCheckoutIfDue 600 (sample_record ''Present'' (Some 480) (Some 1050)) 1085
       = sample_record ''Present'' (Some 480) (Some 1050)
   \<and> applyAutoCheckoutIfDue 600
        (applyAutoCheckoutIfDue 600 (sample_record ''Present'' (Some 480) (Some 1050)) 1085) 1380
       = applyAutoCheckoutIfDue 600 (sample_record ''Present'' (Some 480) (Some 1050)) 1085"
proof -
  have completed: "check_out_time (sample_record ''Present'' (Some 480) (Some 1050)) \<noteq> None"
    by (simp add: sample_record_def)
  show ?thesis
    using completed applyAutoCheckoutIfDue_idempotent
            [of "sample_record ''Present'' (Some 480) (Some 1050)" 600 1085 1380]
    by blast
qed

section \<open>Exporting a report\<close>

declare digits.simps [simp del]

lemma digits_chars: "set (digits n) \<subseteq> set ''0123456789''"
proof (induction n rule: digits.induct)
  case (1 n)
  have nth: "\<And>k. k < 10 \<Longrightarrow> ''0123456789'' ! k \<in> set ''0123456789''"
    by (rule nth_mem) simp
  show ?case
  proof (cases "n < 10")
    case True
    then show ?thesis using nth[of n] by (subst digits.simps) simp
  next
    case False
    have "n mod 10 < 10" by simp
    then have "''0123456789'' ! (n mod 10) \<in> set ''0123456789''" by (rule nth)
    with False 1 show ?thesis by (subst digits.simps) simp
  qed
qed

lemma pad_no_T: "CHR ''T'' \<notin> set (pad k n)"
  using digits_chars[of n] by (auto simp: pad_def)

lemma digits_length: "n < 10 ^ Suc k \<Longrightarrow> length (digits n) \<le> Suc k"
proof (induction k arbitrary: n)
  case 0
  then show ?case by (subst digits.simps) simp
next
  case (Suc k)
  show ?case
  proof (cases "n < 10")
    case True
    then show ?thesis by (subst digits.simps) simp
  next
    case False
    from Suc.prems have "n div 10 < 10 ^ Suc k"
      by (simp add: less_mult_imp_div_less mult.commute)
    then have "length (digits (n div 10)) \<le> Suc k" by (rule Suc.IH)
    with False show ?thesis by (subst digits.simps) simp
  qed
qed

lemma pad_length: "length (digits n) \<le> k \<Longrightarrow> length (pad k n) = k"
  by (simp add: pad_def)

lemma split_T_0_toISOString:
  "year t \<le> 9999 \<Longrightarrow>
     split_T_0 (toISOString t) = pad 4 (year t) @ ''-'' @ pad 2 (month t) @ ''-'' @ pad 2 (day t)"
proof -
  assume y: "year t \<le> 9999"
  let ?d = "pad 4 (year t) @ ''-'' @ pad 2 (month t) @ ''-'' @ pad 2 (day t)"
  have iso: "toISOString t = ?d @ CHR ''T'' # (pad 2 (hour t) @ '':'' @ pad 2 (minute t) @ '':''
               @ pad 2 (second t) @ ''.'' @ pad 3 (millisecond t) @ ''Z'')"
    using y by (simp add: toISOString_def)
  have "\<forall>c \<in> set ?d. c \<noteq> CHR ''T''"
    using pad_no_T by auto
  then show ?thesis
    unfolding split_T_0_def iso by (simp add: takeWhile_tail)
qed

text \<open>
  Claim C9. When a report is present, \<open>exportReport\<close> hands the browser one file: its
  content is the JSON serialisation of the report object and its name is
  \<open>{reportType}-report-{date}.json\<close>, where the date is the current UTC day written
  \<open>YYYY-MM-DD\<close> (four, two and two digits, for a year up to 9999). With no report it hands
  over no file; the only effect is the warning sent to \<^verbatim>\<open>onNotification\<close>, when that prop
  is given.
\<close>

theorem exportReport_file:
  "(reportData snap = Some data \<and> year now \<le> 9999 \<and> month now \<in> {1..12} \<and> day now \<in> {1..31} \<longrightarrow>
      (\<exists>yyyy mm dd. length yyyy = 4 \<and> length mm = 2 \<and> length dd = 2
         \<and> yyyy = pad 4 (year now) \<and> mm = pad 2 (month now) \<and> dd = pad 2 (day now)
         \<and> downloads (exportReport JSON_stringify now snap w)
             = downloads w @ [(reportType snap @ ''-report-'' @ yyyy @ ''-'' @ mm @ ''-'' @ dd @ ''.json'',
                               JSON_stringify data)]))
   \<and> (reportData snap = None \<longrightarrow>
        downloads (exportReport JSON_stringify now snap w) = downloads w
        \<and> notifications (exportReport JSON_stringify now snap w)
            = notifications w @ (if onNotification w then [(''No report data to export'', ''warning'')] else []))"
proof (intro conjI impI)
  assume h: "reportData snap = Some data \<and> year now \<le> 9999 \<and> month now \<in> {1..12} \<and> day now \<in> {1..31}"
  have ly: "length (pad 4 (year now)) = 4"
    using h digits_length[of "year now" 3] by (simp add: pad_length)
  have lm: "length (pad 2 (month now)) = 2"
    using h digits_length[of "month now" 1] by (simp add: pad_length)
  have ld: "length (pad 2 (day now)) = 2"
    using h digits_length[of "day now" 1] by (simp add: pad_length)
  have "downloads (exportReport JSON_stringify now snap w)
          = downloads w @ [(reportType snap @ ''-report-'' @ pad 4 (year now) @ ''-'' @ pad 2 (month now)
                              @ ''-'' @ pad 2 (day now) @ ''.json'', JSON_stringify data)]"
    using h by (simp add: exportReport_def Let_def notify_def split_T_0_toISOString)
  with ly lm ld
  show "\<exists>yyyy mm dd. length yyyy = 4 \<and> length mm = 2 \<and> length dd = 2
         \<and> yyyy = pad 4 (year now) \<and> mm = pad 2 (month now) \<and> dd = pad 2 (day now)
         \<and> downloads (exportReport JSON_stringify now snap w)
             = downloads w @ [(reportType snap @ ''-report-'' @ yyyy @ ''-'' @ mm @ ''-'' @ dd @ ''.json'',
                               JSON_stringify data)]"
    by blast
next
  assume "reportData snap = None"
  then show "downloads (exportReport JSON_stringify now snap w) = downloads w"
    by (simp add: exportReport_def notify_def)
next
  assume "reportData snap = None"
  then show "notifications (exportReport JSON_stringify now snap w)
            = notifications w @ (if onNotification w then [(''No report data to export'', ''warning'')] else [])"
    by (simp add: exportReport_def notify_def)
qed

text \<open>
  The summary report 7 of the example session, exported on 2 November 2026 with a serialiser
  that prints the number.
\<close>

theorem exportReport_file_witness:
  "reportData (state refreshing_view) = Some 7 \<and> year noon \<le> 9999 \<and> month noon \<in> {1..12} \<and> day noon \<in> {1..31}
   \<and> downloads (exportReport digits noon (state refreshing_view) empty_world)
       = [(''attendance-summary-report-2026-11-02.json'', ''7'')]"
proof -
  have h: "reportData (state refreshing_view) = Some 7 \<and> year noon \<le> 9999
             \<and> month noon \<in> {1..12} \<and> day noon \<in> {1..31}"
    by code_simp
  have t: "reportType (state refreshing_view) = ''attendance-summary''" by code_simp
  have p: "pad 4 (year noon) = ''2026''" "pad 2 (month noon) = ''11''" "pad 2 (day noon) = ''02''"
          "digits 7 = ''7''" "downloads empty_world = []"
    by code_simp+
  show ?thesis
    using h exportReport_file [of "state refreshing_view" 7 noon digits empty_world]
    by (simp add: t p)
qed


section \<open>Generating a report\<close>

lemmas generateReport_defs =
  generateReport_def generateReport_start_def generateReport_finish_def generateReport_catch_def
  notify_def Let_def

lemma generateReport_returns:
  "\<exists>sw'. generateReport snap silent service now sw = (Return (), sw')"
  by (cases sw) (auto simp: generateReport_defs split: sum.splits)

text \<open>
  Claim C3. A department report requested without a department, or an employee
  performance report requested without an employee, ends in an error and sends no call to
  the report service: the error message is set (and the stored report is left as it was).
  When the date range is complete the message is the one that names the missing filter;
  otherwise the earlier check of the date range sets its own message.
\<close>

theorem generateReport_missing_filter:
  assumes "(reportType snap = ''department'' \<and> department (filters snap) = [])
           \<or> (reportType snap = ''employee-performance'' \<and> employeeId (filters snap) = [])"
  shows "(case generateReport snap silent service now (st, w) of
            (outcome, st', w') \<Rightarrow>
              calls w' = calls w \<and> error st' \<noteq> [] \<and> reportData st' = reportData st
              \<and> lastGenerated st' = lastGenerated st
              \<and> (dateFrom (filters snap) \<noteq> [] \<and> dateTo (filters snap) \<noteq> [] \<longrightarrow>
                   error st' = (if reportType snap = ''department''
                                then ''Please select a department for department report''
                                else ''Please select an employee for performance report'')))
         \<and> (\<exists>sw'. generateReport_start snap silent (st, w) = (Over (Return ()), sw'))"
  using assms by (auto simp: generateReport_defs)

text \<open>
  A department report without a department, with both dates given.
\<close>

theorem generateReport_missing_filter_witness:
  "reportType department_view = ''department'' \<and> department (filters department_view) = []
   \<and> dateFrom (filters department_view) \<noteq> [] \<and> dateTo (filters department_view) \<noteq> []
   \<and> (case generateReport department_view False failing_service 1000 (department_view, empty_world) of
         (outcome, st', w') \<Rightarrow>
           calls w' = [] \<and> error st' = ''Please select a department for department report''
           \<and> reportData st' = None)
   \<and> generateReport_start department_view False (department_view, empty_world)
       = (Over (Return ()),
          department_view\<lparr>error := ''Please select a department for department report''\<rparr>,
          empty_world\<lparr>notifications := [(''Please select a department'', ''warning'')]\<rparr>)"
  using generateReport_missing_filter
          [where snap = department_view and silent = False and service = failing_service
             and now = 1000 and st = department_view and w = empty_world]
  by (simp add: department_view_def initial_state_def empty_world_def generateReport_defs)

text \<open>
  Claim C10. When the report call of an invocation of \<open>generateReport\<close> fails, the stored
  \<open>reportData\<close> and \<open>lastGenerated\<close> are unchanged: the new state differs from the old one
  in the error message, which is set, and in the loading flag at most.
\<close>

theorem generateReport_failure_keeps_report:
  assumes "\<forall>c. isl (service c)"
  shows "(case generateReport snap silent service now (st, w) of
            (outcome, st', w') \<Rightarrow>
              reportData st' = reportData st \<and> lastGenerated st' = lastGenerated st
              \<and> error st' \<noteq> []
              \<and> st' = st\<lparr>loading := loading st', error := error st'\<rparr>)"
proof -
  define f where "f = (\<lambda>c. projl (service c))"
  have f: "\<And>c. service c = Inl (f c)"
    using assms by (simp add: f_def)
  show ?thesis
    by (auto simp: generateReport_defs f)
qed

text \<open>
  The example session with report 7 generated at instant 1000: a failed refresh keeps both.
\<close>

theorem generateReport_failure_keeps_report_witness:
  "(\<forall>c. isl (failing_service c))
   \<and> (case generateReport (state refreshing_view) True failing_service 2000
              (state refreshing_view, world refreshing_view) of
         (outcome, st', w') \<Rightarrow>
           reportData st' = Some 7 \<and> lastGenerated st' = Some 1000 \<and> error st' = ''Network Error'')"
proof -
  have h: "\<forall>c. isl (failing_service c)" by (simp add: failing_service_def)
  have v: "reportData (state refreshing_view) = Some 7" "lastGenerated (state refreshing_view) = Some 1000"
          "reportType (state refreshing_view) = ''attendance-summary''"
          "dateFrom (filters (state refreshing_view)) = ''2026-10-03''"
          "dateTo (filters (state refreshing_view)) = ''2026-11-02''"
    by code_simp+
  have e: "(case generateReport (state refreshing_view) True failing_service 2000
              (state refreshing_view, world refreshing_view) of
         (outcome, st', w') \<Rightarrow> error st' = ''Network Error'')"
    by (simp add: generateReport_defs v failing_service_def)
  show ?thesis
    using h e v generateReport_failure_keeps_report
            [OF h, where snap = "state refreshing_view" and silent = True and now = 2000
               and st = "state refreshing_view" and w = "world refreshing_view"]
    by (auto simp: split_def)
qed

text \<open>
  The view checks that both bounds are there and does not compare them: with both
  present, and the report type and its required filter given, one call is sent with the
  bounds as they are, and the outcome is what the service answers.
\<close>

lemma generateReport_forwards_range:
  "(reportType snap \<noteq> [] \<and> (dateFrom (filters snap) = [] \<or> dateTo (filters snap) = []) \<longrightarrow>
      (case generateReport snap silent service now (st, w) of
         (outcome, st', w') \<Rightarrow>
           error st' = ''Please select date range'' \<and> calls w' = calls w
           \<and> reportData st' = reportData st))
   \<and> (dateFrom (filters snap) \<noteq> [] \<and> dateTo (filters snap) \<noteq> []
        \<and> (reportType snap = ''attendance-summary''
             \<or> reportType snap = ''employee-performance'' \<and> employeeId (filters snap) \<noteq> []
             \<or> reportType snap = ''department'' \<and> department (filters snap) \<noteq> []) \<longrightarrow>
      (case generateReport snap silent service now (st, w) of
         (outcome, st', w') \<Rightarrow>
           (\<exists>c. calls w' = calls w @ [c]
                \<and> call_range c = (dateFrom (filters snap), dateTo (filters snap))
                \<and> (case service c of
                      Inr data \<Rightarrow> reportData st' = Some data \<and> lastGenerated st' = Some now
                    | Inl message \<Rightarrow> reportData st' = reportData st \<and> error st' \<noteq> []))))"
  by (auto simp: generateReport_defs split: sum.splits)

lemma date_after_nonempty: "date_after f t \<Longrightarrow> f \<noteq> []"
  by (cases f) auto

text \<open>
  Claim C8. Report generation over a date range requires both bounds and fails with
  \<open>InvalidRange\<close> whenever \<open>from > to\<close>; no report is produced then. When a bound is missing
  the view sets the error \<open>Please select date range\<close> and sends no call, whatever the
  service. When \<open>from > to\<close>, with the report service of the specification, the stored
  report and its timestamp are left as they were and an error is set; when the request
  passes the checks of the view, the call carries the bounds as given and the error is the
  service's \<open>InvalidRange\<close>.
\<close>

theorem generateReport_invalid_range:
  "(reportType snap \<noteq> [] \<and> (dateFrom (filters snap) = [] \<or> dateTo (filters snap) = []) \<longrightarrow>
      (case generateReport snap silent service now (st, w) of
         (outcome, st', w') \<Rightarrow>
           error st' = ''Please select date range'' \<and> calls w' = calls w
           \<and> reportData st' = reportData st \<and> lastGenerated st' = lastGenerated st))
   \<and> (date_after (dateFrom (filters snap)) (dateTo (filters snap)) \<longrightarrow>
      (case generateReport snap silent (reportAggregator aggregate) now (st, w) of
         (outcome, st', w') \<Rightarrow>
           reportData st' = reportData st \<and> lastGenerated st' = lastGenerated st
           \<and> error st' \<noteq> []
           \<and> (dateTo (filters snap) \<noteq> []
                \<and> (reportType snap = ''attendance-summary''
                     \<or> reportType snap = ''employee-performance'' \<and> employeeId (filters snap) \<noteq> []
                     \<or> reportType snap = ''department'' \<and> department (filters snap) \<noteq> []) \<longrightarrow>
                error st' = ''InvalidRange''
                \<and> (\<exists>c. calls w' = calls w @ [c]
                       \<and> call_range c = (dateFrom (filters snap), dateTo (filters snap))))))"
proof (intro conjI impI)
  assume "reportType snap \<noteq> [] \<and> (dateFrom (filters snap) = [] \<or> dateTo (filters snap) = [])"
  then show "case generateReport snap silent service now (st, w) of
         (outcome, st', w') \<Rightarrow>
           error st' = ''Please select date range'' \<and> calls w' = calls w
           \<and> reportData st' = reportData st \<and> lastGenerated st' = lastGenerated st"
    by (auto simp: generateReport_defs)
next
  assume r: "date_after (dateFrom (filters snap)) (dateTo (filters snap))"
  then have f: "dateFrom (filters snap) \<noteq> []" by (rule date_after_nonempty)
  show "case generateReport snap silent (reportAggregator aggregate) now (st, w) of
         (outcome, st', w') \<Rightarrow>
           reportData st' = reportData st \<and> lastGenerated st' = lastGenerated st
           \<and> error st' \<noteq> []
           \<and> (dateTo (filters snap) \<noteq> []
                \<and> (reportType snap = ''attendance-summary''
                     \<or> reportType snap = ''employee-performance'' \<and> employeeId (filters snap) \<noteq> []
                     \<or> reportType snap = ''department'' \<and> department (filters snap) \<noteq> []) \<longrightarrow>
                error st' = ''InvalidRange''
                \<and> (\<exists>c. calls w' = calls w @ [c]
                       \<and> call_range c = (dateFrom (filters snap), dateTo (filters snap))))"
    using r f by (auto simp: generateReport_defs reportAggregator_def)
qed

text \<open>
  A view without the lower bound, and a view asking for the attendance summary from
  2 November back to 3 October 2026.
\<close>

theorem generateReport_invalid_range_witness:
  "reportType open_range_view \<noteq> [] \<and> dateFrom (filters open_range_view) = []
   \<and> (case generateReport open_range_view False failing_service 1000 (open_range_view, empty_world) of
         (outcome, st', w') \<Rightarrow>
           error st' = ''Please select date range'' \<and> calls w' = [] \<and> reportData st' = None)
   \<and> date_after (dateFrom (filters reversed_range_view)) (dateTo (filters reversed_range_view))
   \<and> dateTo (filters reversed_range_view) \<noteq> []
   \<and> reportType reversed_range_view = ''attendance-summary''
   \<and> (case generateReport reversed_range_view False (reportAggregator (\<lambda>c. 7)) 1000
              (reversed_range_view, empty_world) of
         (outcome, st', w') \<Rightarrow>
           reportData st' = None \<and> lastGenerated st' = None \<and> error st' = ''InvalidRange''
           \<and> calls w' = [GenerateAttendanceSummary ''2026-11-02'' ''2026-10-03'' []])"
proof -
  have r: "date_after (dateFrom (filters reversed_range_view)) (dateTo (filters reversed_range_view))"
    by (simp add: reversed_range_view_def initial_state_def)
  show ?thesis
    using r
      generateReport_invalid_range
        [where snap = open_range_view and silent = False and service = failing_service
           and now = 1000 and st = open_range_view and w = empty_world]
      generateReport_invalid_range
        [where snap = reversed_range_view and silent = False and aggregate = "\<lambda>c. 7"
           and now = 1000 and st = reversed_range_view and w = empty_world]
    by (simp add: open_range_view_def reversed_range_view_def initial_state_def empty_world_def
          reportAggregator_def generateReport_defs)
qed

section \<open>The refresh controller\<close>

text \<open>
  Whatever the service answers, a scheduled refresh ends with the retry counter at 0 and
  the refresh settings untouched: \<^verbatim>\<open>generateReport\<close> handles the rejection itself, so the
  \<^verbatim>\<open>await\<close> in \<^verbatim>\<open>performAutoRefresh\<close> never throws and its \<^verbatim>\<open>catch\<close> block is not reached.
\<close>

lemma performAutoRefresh_resets_retryCount:
  "retryCount (fst (performAutoRefresh snap service now (st, w))) = 0
   \<and> refreshSettings (fst (performAutoRefresh snap service now (st, w))) = refreshSettings st"
  by (auto simp: performAutoRefresh_def performAutoRefresh_start_def performAutoRefresh_finish_def
        performAutoRefresh_settle_def generateReport_defs split: sum.splits)

text \<open>
  Had the \<^verbatim>\<open>catch\<close> block been reached in a render that is up to date, it would pause
  only when the counter had reached \<open>maxRetries\<close> before the failure at hand.
\<close>

lemma performAutoRefresh_settle_threshold:
  "performAutoRefresh_settle st (Throw e) (st, w)
     = (if pauseOnError (refreshSettings st) \<and> maxRetries (refreshSettings st) \<le> retryCount st
        then (st\<lparr>retryCount := retryCount st + 1,
                  refreshSettings := (refreshSettings st)\<lparr>enabled := False\<rparr>,
                  isRefreshing := False\<rparr>,
              notify (''Auto-refresh paused after '' @ digits (maxRetries (refreshSettings st))
                       @ '' failed attempts'') ''warning'' w)
        else (st\<lparr>retryCount := retryCount st + 1, isRefreshing := False\<rparr>, w))"
  by (simp add: performAutoRefresh_settle_def Let_def)

text \<open>
  Claim C1 says that every failed scheduled refresh increments the retry counter and that
  the controller pauses when the count reaches \<open>maxRetries\<close>. In the example session
  (\<open>pauseOnError\<close> set, \<open>maxRetries = 3\<close>, counter 0) the counter is still 0 after one failed
  refresh and after four; after four failures auto-refresh is still enabled, both timers
  are live, and five report calls have been sent in all.
\<close>

theorem failed_refreshes_never_counted:
  "pauseOnError (refreshSettings (state refreshing_view))
   \<and> maxRetries (refreshSettings (state refreshing_view)) = 3
   \<and> retryCount (state refreshing_view) = 0
   \<and> retryCount (state one_failure) = 0
   \<and> retryCount (state four_failures) = 0
   \<and> enabled (refreshSettings (state four_failures))
   \<and> map fst (timers (world four_failures)) = [1, 2]
   \<and> length (calls (world four_failures)) = 5"
  by code_simp

text \<open>
  A refresh tick decides on the \<^verbatim>\<open>isRefreshing\<close> of the render that created the timer; the
  current value of that state cell plays no part.
\<close>

lemma refreshTick_while_refreshing:
  assumes "\<not> isRefreshing snap" "reportType snap = ''attendance-summary''"
      and "dateFrom (filters snap) \<noteq> []" "dateTo (filters snap) \<noteq> []"
  shows "fst (refreshTick snap (st\<lparr>isRefreshing := True\<rparr>, w))
           = Some (GenerateAttendanceSummary (dateFrom (filters snap)) (dateTo (filters snap))
                     (department (filters snap)))"
  using assms
  by (simp add: refreshTick_def performAutoRefresh_start_def generateReport_start_def Let_def)

text \<open>
  Claim C6 says that a tick of the refresh timer is skipped while a refresh is pending. In
  the example session with the interval of 30 seconds, the first tick of timer 4 sends the
  report call and sets \<^verbatim>\<open>isRefreshing\<close>; the service has not answered when the timer ticks
  again (a request is given 30 seconds before it times out); the second tick sends the
  call again, and two calls are in flight.
\<close>

theorem refresh_ticks_overlap:
  "isRefreshing (state first_tick)
   \<and> map fst (in_flight first_tick)
       = [GenerateAttendanceSummary ''2026-10-03'' ''2026-11-02'' []]
   \<and> map fst (in_flight second_tick)
       = [GenerateAttendanceSummary ''2026-10-03'' ''2026-11-02'' [],
          GenerateAttendanceSummary ''2026-10-03'' ''2026-11-02'' []]"
  by code_simp

text \<open>
  \<^verbatim>\<open>stopAutoRefresh\<close> clears the two timers whose handles its render holds. When a change
  of the state disables the refresh, the effect runs again in a render that holds the
  handles of the live timers, and both are cleared: this is the path of the manual switch
  and of the pause on errors.
\<close>

lemma stopAutoRefresh_clears_both:
  assumes "refreshInterval snap = Some r" "countdownInterval snap = Some c"
  shows "stopAutoRefresh snap (st, w)
           = (st\<lparr>refreshInterval := None, countdownInterval := None, refreshCountdown := 0\<rparr>,
              w\<lparr>timers := filter (\<lambda>t. fst t \<noteq> r \<and> fst t \<noteq> c) (timers w)\<rparr>)"
  using assms by (simp add: stopAutoRefresh_def clearInterval_def conj_commute)

lemma stopAutoRefresh_timers:
  "timers (snd (stopAutoRefresh snap (st, w)))
     = filter (\<lambda>t. Some (fst t) \<noteq> refreshInterval snap \<and> Some (fst t) \<noteq> countdownInterval snap) (timers w)"
  by (auto simp: stopAutoRefresh_def clearInterval_def split: option.splits intro: filter_cong)

lemma commit_disabled_clears_timers:
  assumes "enabled (refreshSettings (effect_render c))" "\<not> enabled (refreshSettings (state c))"
      and "\<forall>t \<in> set (timers (world c)).
             Some (fst t) = refreshInterval (state c) \<or> Some (fst t) = countdownInterval (state c)"
  shows "timers (world (commit c)) = []"
proof -
  have deps: "effect_deps (state c) \<noteq> effect_deps (effect_render c)"
    using assms(1,2) by (auto simp: effect_deps_def)
  obtain st1 w1 where s1: "stopAutoRefresh (effect_render c) (state c, world c) = (st1, w1)"
    by (cases "stopAutoRefresh (effect_render c) (state c, world c)")
  have sub: "set (timers w1) \<subseteq> set (timers (world c))"
    using stopAutoRefresh_timers[of "effect_render c" "state c" "world c"] s1 by auto
  obtain st2 w2 where s2: "stopAutoRefresh (state c) (st1, w1) = (st2, w2)"
    by (cases "stopAutoRefresh (state c) (st1, w1)")
  have "timers w2 = filter (\<lambda>t. Some (fst t) \<noteq> refreshInterval (state c)
                                 \<and> Some (fst t) \<noteq> countdownInterval (state c)) (timers w1)"
    using stopAutoRefresh_timers[of "state c" st1 w1] s2 by simp
  also have "\<dots> = []"
    using assms(3) sub by (auto simp: filter_empty_conv)
  finally have "timers w2 = []" .
  then show ?thesis
    using deps assms(2) s1 s2 by (simp add: commit_def refreshEffect_def Let_def)
qed

lemma manual_disable_clears_timers: "timers (world (clickToggle refreshing_view)) = []"
  by code_simp

text \<open>
  Discarding the view is different. Whenever the effect starts the timers, the cleanup it
  returns belongs to the render that ran the effect, and the handles that this render holds
  are older than the two timers just created: discarding the view leaves both of them
  live.
\<close>

lemma stopAutoRefresh_next_timer:
  "next_timer (snd (stopAutoRefresh snap (st, w))) = next_timer w"
  by (auto simp: stopAutoRefresh_def clearInterval_def split: option.splits)

lemma startAutoRefresh_timers:
  "timers (snd (startAutoRefresh snap (st, w)))
     = timers (snd (stopAutoRefresh snap (st, w)))
       @ [(next_timer w, CountdownTimer, snap), (Suc (next_timer w), RefreshTimer, snap)]"
proof -
  obtain st1 w1 where s: "stopAutoRefresh snap (st, w) = (st1, w1)"
    by (cases "stopAutoRefresh snap (st, w)")
  have n: "next_timer w1 = next_timer w"
    using stopAutoRefresh_next_timer[of snap st w] s by simp
  show ?thesis
    by (simp add: startAutoRefresh_def s setInterval_def Let_def n)
qed

lemma unmount_keeps_started_timers:
  assumes start: "enabled (refreshSettings (state c))" "reportData (state c) \<noteq> None"
                 "reportType (state c) \<noteq> []"
      and deps: "effect_deps (state c) \<noteq> effect_deps (effect_render c)"
      and old: "\<forall>h. refreshInterval (state c) = Some h \<or> countdownInterval (state c) = Some h
                  \<longrightarrow> h < next_timer (world c)"
  shows "{next_timer (world c), Suc (next_timer (world c))}
           \<subseteq> fst ` set (timers (unmount (commit c)))"
proof -
  let ?cur = "state c" and ?n = "next_timer (world c)"
  obtain st1 w1 where s1: "stopAutoRefresh (effect_render c) (?cur, world c) = (st1, w1)"
    by (cases "stopAutoRefresh (effect_render c) (?cur, world c)")
  have n1: "next_timer w1 = ?n"
    using stopAutoRefresh_next_timer[of "effect_render c" ?cur "world c"] s1 by simp
  obtain st2 w2 where s2: "startAutoRefresh ?cur (st1, w1) = (st2, w2)"
    by (cases "startAutoRefresh ?cur (st1, w1)")
  have t2: "timers w2 = timers (snd (stopAutoRefresh ?cur (st1, w1)))
                          @ [(?n, CountdownTimer, ?cur), (Suc ?n, RefreshTimer, ?cur)]"
    using startAutoRefresh_timers[of ?cur st1 w1] s2 n1 by simp
  have c: "commit c = c\<lparr>effect_render := ?cur, state := st2, world := w2\<rparr>"
    using deps start s1 s2 by (simp add: commit_def refreshEffect_def Let_def)
  have "timers (unmount (commit c))
          = filter (\<lambda>t. Some (fst t) \<noteq> refreshInterval ?cur \<and> Some (fst t) \<noteq> countdownInterval ?cur)
              (timers w2)"
    using stopAutoRefresh_timers[of ?cur st2 w2] by (simp add: c unmount_def)
  moreover have "Some ?n \<noteq> refreshInterval ?cur" "Some ?n \<noteq> countdownInterval ?cur"
    "Some (Suc ?n) \<noteq> refreshInterval ?cur" "Some (Suc ?n) \<noteq> countdownInterval ?cur"
    using old by (metis less_irrefl, metis less_irrefl, metis Suc_lessD less_irrefl, metis Suc_lessD less_irrefl)
  ultimately show ?thesis
    by (simp add: t2 image_iff)
qed

text \<open>
  Claim C7 says that both timers are cleared on every path that ends the refresh,
  discarding the view included. When the view of the example session is discarded, the
  cleanup that runs is the one returned by the effect run that created timers 1 and 2; in
  that render \<^verbatim>\<open>refreshInterval\<close> and \<^verbatim>\<open>countdownInterval\<close> are still \<^verbatim>\<open>null\<close>, so nothing
  is cleared and both timers stay live.
\<close>

theorem unmount_leaves_timers:
  "countdownInterval (state refreshing_view) = Some 1
   \<and> refreshInterval (state refreshing_view) = Some 2
   \<and> map (\<lambda>t. (fst t, fst (snd t))) (timers (world refreshing_view))
       = [(1, CountdownTimer), (2, RefreshTimer)]
   \<and> map (\<lambda>t. (fst t, fst (snd t))) (timers discarded_view)
       = [(1, CountdownTimer), (2, RefreshTimer)]"
  by code_simp

end
